theory Spec2Isabelle
  imports Complex_Main
begin

section \<open>Values shared by the two source files\<close>

text \<open>
  The repository is a React component (the application file) and a two-function helper
  module, \<^verbatim>\<open>src/lib/geoutils.js\<close>. Both delegate every geometric computation
  to the third-party library turf, whose code is not part of the repository. The library
  is therefore a parameter of the model: a record of the five geometric functions the
  repository calls. A call into the library may throw, so each function returns a sum,
  \<open>Inl\<close> being the exception. The GeoJSON features handed to the library are never inspected by the
  repository, so their types are type variables: \<open>'f\<close> a polygon feature, \<open>'l\<close> the
  line geometry \<^verbatim>\<open>polygonToLine\<close> returns, \<open>'m\<close> a line feature.

  A distance is a \<open>number\<close>, which also has the three non-finite values, because
  \<^verbatim>\<open>nearestDistanceToLines\<close> starts from \<^verbatim>\<open>Infinity\<close>.
\<close>

datatype exn = Thrown string

datatype point = Point (plon: real) (plat: real)

text \<open>
  The sixth function the repository calls, \<^verbatim>\<open>turf.point([lon, lat])\<close>, is the
  library's constructor of a point, and the one call whose behaviour the model fixes. The
  longitude and latitude the component passes around are JavaScript values: a finite
  number, modelled as a real, or something that is no number. The component's position
  cell starts as \<^verbatim>\<open>{ lat: null, lon: null }\<close>, and the handlers of the two input
  fields pass the other field's stored coordinate on as it is, so \<^verbatim>\<open>null\<close> does
  reach the functions below. \<^verbatim>\<open>turf.point\<close> wraps two numbers and throws
  \<^verbatim>\<open>coordinates must contain numbers\<close> when one of them is
  \<^verbatim>\<open>null\<close> or \<^verbatim>\<open>NaN\<close>.
\<close>

datatype coordinate = Null | NotANumber | Coord real

fun turf_point :: "coordinate \<Rightarrow> coordinate \<Rightarrow> exn + point" where
  "turf_point (Coord x) (Coord y) = Inr (Point x y)"
| "turf_point _ _ = Inl (Thrown ''coordinates must contain numbers'')"

datatype number = Num real | PosInfinity | NegInfinity | NaN

text \<open>JavaScript's \<^verbatim>\<open><\<close> on numbers: every comparison with \<^verbatim>\<open>NaN\<close> is false.\<close>

fun num_less :: "number \<Rightarrow> number \<Rightarrow> bool" where
  "num_less NaN _ = False"
| "num_less _ NaN = False"
| "num_less (Num a) (Num b) = (a < b)"
| "num_less (Num a) PosInfinity = True"
| "num_less NegInfinity (Num b) = True"
| "num_less NegInfinity PosInfinity = True"
| "num_less _ _ = False"

record ('f, 'l, 'm) turf =
  booleanPointInPolygon :: "point \<Rightarrow> 'f \<Rightarrow> exn + bool"
  polygonToLine :: "'f \<Rightarrow> exn + 'l"
  nearestPointOnLine :: "'l \<Rightarrow> point \<Rightarrow> exn + point"
  distance :: "point \<Rightarrow> point \<Rightarrow> string \<Rightarrow> exn + number"
  pointToLineDistance :: "point \<Rightarrow> 'm \<Rightarrow> string \<Rightarrow> exn + number"

section \<open>geoutils.js\<close>

text \<open>
  \<^verbatim>\<open>
  export function nearestDistanceToLines(point, lineFeatures) {
    let min = Infinity;
    for (const f of lineFeatures) {
      const d = turf.pointToLineDistance(point, f, { units: 'kilometers' });
      if (d < min) min = d;
    }
    return min;
  }
  \<close>
  The loop is a recursion over the features with \<^verbatim>\<open>min\<close> as accumulator \<open>min'\<close>; an exception of
  the library leaves the loop at once.
\<close>

fun nearestDistanceToLines_loop ::
  "('f, 'l, 'm) turf \<Rightarrow> point \<Rightarrow> 'm list \<Rightarrow> number \<Rightarrow> exn + number" where
  "nearestDistanceToLines_loop turf pt [] min' = Inr min'"
| "nearestDistanceToLines_loop turf pt (f # fs) min' =
     (case pointToLineDistance turf pt f ''kilometers'' of
        Inl e \<Rightarrow> Inl e
      | Inr d \<Rightarrow> nearestDistanceToLines_loop turf pt fs (if num_less d min' then d else min'))"

definition nearestDistanceToLines ::
  "('f, 'l, 'm) turf \<Rightarrow> point \<Rightarrow> 'm list \<Rightarrow> exn + number" where
  "nearestDistanceToLines turf pt lineFeatures =
     nearestDistanceToLines_loop turf pt lineFeatures PosInfinity"

text \<open>
  \<^verbatim>\<open>
  export function insidePolygon(point, polygonFeature) {
    return turf.booleanPointInPolygon(point, polygonFeature);
  }
  \<close>
\<close>

definition insidePolygon :: "('f, 'l, 'm) turf \<Rightarrow> point \<Rightarrow> 'f \<Rightarrow> exn + bool" where
  "insidePolygon turf pt polygonFeature = booleanPointInPolygon turf pt polygonFeature"

section \<open>The application component\<close>

subsection \<open>State\<close>

text \<open>
  The component keeps its data in React state cells and in the map object behind
  \<^verbatim>\<open>map.current\<close>. The model holds the cells the three modelled functions read or
  write, the part of the map they touch (whether the layer \<^verbatim>\<open>boat\<close> exists, and
  its \<^verbatim>\<open>circle-color\<close>), and a log of every setter and map call made, oldest
  first, so that a statement can count calls as well as compare states. A setter takes
  effect at once; React applies it at the next render, which makes no difference here,
  since none of the three functions reads a cell after setting it. The
  \<^verbatim>\<open>console.log\<close> debug lines are not modelled.
\<close>

record mapbox =
  boat_layer :: bool
  boat_circle_color :: string

record safety_info =
  label :: string
  cls :: string

text \<open>
  The string \<^verbatim>\<open>toFixed\<close> returns. From a magnitude of \<open>10^21\<close> on, JavaScript
  prints a number in exponent notation, whose digits depend on the binary representation
  and are not modelled: \<open>ExpNotation r\<close> stands for that string.
\<close>

datatype jsstring = Str string | ExpNotation real

datatype call =
    SetSafety safety_info
  | SetAlertMsg "string option"
  | SetDistToCoast "jsstring option"
  | SetPaintProperty string string string

record 'f featureCollection =
  features :: "'f list option"

record 'f app =
  map_current :: "mapbox option"
  eezData :: "'f featureCollection option"
  safety :: safety_info
  alertMsg :: "string option"
  distToCoast :: "jsstring option"
  calls :: "call list"

definition setSafety :: "safety_info \<Rightarrow> 'f app \<Rightarrow> 'f app" where
  "setSafety v s = s\<lparr>safety := v, calls := calls s @ [SetSafety v]\<rparr>"

definition setAlertMsg :: "string option \<Rightarrow> 'f app \<Rightarrow> 'f app" where
  "setAlertMsg v s = s\<lparr>alertMsg := v, calls := calls s @ [SetAlertMsg v]\<rparr>"

definition setDistToCoast :: "jsstring option \<Rightarrow> 'f app \<Rightarrow> 'f app" where
  "setDistToCoast v s = s\<lparr>distToCoast := v, calls := calls s @ [SetDistToCoast v]\<rparr>"

definition setPaintProperty :: "string \<Rightarrow> string \<Rightarrow> string \<Rightarrow> 'f app \<Rightarrow> 'f app" where
  "setPaintProperty layer name v s =
     s\<lparr>map_current :=
          map_option (\<lambda>m. if layer = ''boat'' \<and> name = ''circle-color''
                            then m\<lparr>boat_circle_color := v\<rparr> else m) (map_current s),
        calls := calls s @ [SetPaintProperty layer name v]\<rparr>"

text \<open>
  Both \<^verbatim>\<open>updateSafety\<close> and \<^verbatim>\<open>updateDistanceToEEZ\<close> test
  \<^verbatim>\<open>!featureCollection || !featureCollection.features?.length\<close>, and the demo
  sampler tests \<^verbatim>\<open>eezData?.features?.length\<close>. \<open>features_of\<close> is the list of
  features when the data, its \<^verbatim>\<open>features\<close> and a first feature all exist, and the
  empty list in each case in which the test counts the boundary as missing.
\<close>

definition features_of :: "'f featureCollection option \<Rightarrow> 'f list" where
  "features_of featureCollection =
     (case featureCollection of
        None \<Rightarrow> []
      | Some c \<Rightarrow> (case features c of None \<Rightarrow> [] | Some fs \<Rightarrow> fs))"

subsection \<open>updateSafety\<close>

text \<open>
  \<^verbatim>\<open>
  function updateSafety(lon, lat) {
    if (!map.current) return;
    const featureCollection = eezData;
    if (!featureCollection || !featureCollection.features?.length) {
      setSafety({ label: 'EEZ data not loaded', cls: 'warn' });
      return;
    }
    const pt = turf.point([lon, lat]);
    const eezFeature = featureCollection.features[0];
    const inside = insidePolygon(pt, eezFeature);
    let label = 'Inside Indian EEZ (Safe)';
    let cls = 'safe';
    if (!inside) {
      label = 'Outside Indian EEZ! Alert Coast Guard';
      cls = 'danger';
      if (map.current.getLayer('boat')) {
        map.current.setPaintProperty('boat', 'circle-color', '#FF0000');
      }
      setAlertMsg(label);
    } else {
      if (map.current.getLayer('boat')) {
        map.current.setPaintProperty('boat', 'circle-color', '#FFD400');
      }
      setAlertMsg(null);
    }
    setSafety({ label, cls });
  }
  \<close>
\<close>

definition updateSafety ::
  "('f, 'l, 'm) turf \<Rightarrow> coordinate \<Rightarrow> coordinate \<Rightarrow> 'f app \<Rightarrow> exn + 'f app" where
  "updateSafety turf lon lat s =
     (case map_current s of
        None \<Rightarrow> Inr s
      | Some m \<Rightarrow>
         (case features_of (eezData s) of
            [] \<Rightarrow> Inr (setSafety \<lparr>label = ''EEZ data not loaded'', cls = ''warn''\<rparr> s)
          | eezFeature # _ \<Rightarrow>
             (case turf_point lon lat of
                Inl e \<Rightarrow> Inl e
              | Inr pt \<Rightarrow>
                 (case insidePolygon turf pt eezFeature of
                    Inl e \<Rightarrow> Inl e
                  | Inr inside \<Rightarrow>
                     if \<not> inside then
                       Inr (setSafety
                              \<lparr>label = ''Outside Indian EEZ! Alert Coast Guard'',
                               cls = ''danger''\<rparr>
                              (setAlertMsg (Some ''Outside Indian EEZ! Alert Coast Guard'')
                                 (if boat_layer m
                                  then setPaintProperty ''boat'' ''circle-color'' ''#FF0000'' s
                                  else s)))
                     else
                       Inr (setSafety \<lparr>label = ''Inside Indian EEZ (Safe)'', cls = ''safe''\<rparr>
                              (setAlertMsg None
                                 (if boat_layer m
                                  then setPaintProperty ''boat'' ''circle-color'' ''#FFD400'' s
                                  else s)))))))"

text \<open>
  A sequence of position updates at numeric coordinates, each classified in the state
  the one before it left; an exception ends the sequence.
\<close>

fun updateSafety_all ::
  "('f, 'l, 'm) turf \<Rightarrow> (real \<times> real) list \<Rightarrow> 'f app \<Rightarrow> exn + 'f app" where
  "updateSafety_all turf [] s = Inr s"
| "updateSafety_all turf (p # ps) s =
     (case updateSafety turf (Coord (fst p)) (Coord (snd p)) s of
        Inl e \<Rightarrow> Inl e
      | Inr s' \<Rightarrow> updateSafety_all turf ps s')"

fun raises_alert :: "call \<Rightarrow> bool" where
  "raises_alert (SetAlertMsg (Some msg)) = True"
| "raises_alert _ = False"

fun clears_alert :: "call \<Rightarrow> bool" where
  "clears_alert (SetAlertMsg None) = True"
| "clears_alert _ = False"

subsection \<open>updateDistanceToEEZ\<close>

text \<open>
  \<^verbatim>\<open>Number.prototype.toFixed(f)\<close> for \<open>f > 0\<close>: a number that is not finite prints
  as its name; otherwise the sign is split off, the magnitude \<open>x\<close> is replaced by the
  integer \<open>n\<close> with \<open>n / 10^f\<close> nearest to \<open>x\<close> (the larger one of two), and the decimal
  digits of \<open>n\<close>, padded with zeros on the left to \<open>f + 1\<close> digits, get a point before
  the last \<open>f\<close>. The nearest \<open>n\<close> is taken for the real number: where the double that
  JavaScript holds is not the decimal it was written as, a tie of the decimal is none of
  the double.
\<close>

definition digit_char :: "nat \<Rightarrow> char" where
  "digit_char d = ''0123456789'' ! (d mod 10)"

fun decimal :: "nat \<Rightarrow> string" where
  "decimal n = (if n < 10 then [digit_char n] else decimal (n div 10) @ [digit_char n])"

declare decimal.simps [simp del]

definition fixed_digits :: "nat \<Rightarrow> real \<Rightarrow> string" where
  "fixed_digits f x =
     (let n = nat \<lfloor>x * 10 ^ f + 1 / 2\<rfloor>;
          m = decimal n;
          m = (if length m \<le> f then replicate (f + 1 - length m) (CHR ''0'') @ m else m);
          k = length m
      in take (k - f) m @ ''.'' @ drop (k - f) m)"

definition toFixed :: "nat \<Rightarrow> number \<Rightarrow> jsstring" where
  "toFixed f x =
     (case x of
        NaN \<Rightarrow> Str ''NaN''
      | PosInfinity \<Rightarrow> Str ''Infinity''
      | NegInfinity \<Rightarrow> Str ''-Infinity''
      | Num r \<Rightarrow>
          if 10 ^ 21 \<le> \<bar>r\<bar> then ExpNotation r
          else if r < 0 then Str (''-'' @ fixed_digits f (- r))
          else Str (fixed_digits f r))"

text \<open>
  \<^verbatim>\<open>
  function updateDistanceToEEZ(lon, lat) {
    if (map.current) {
      const pt = turf.point([lon, lat]);
      const featureCollection = eezData;
      if (!featureCollection || !featureCollection.features?.length) {
        setDistToCoast(null);
        return;
      }
      const eezFeature = featureCollection.features[0];
      const boundaryLine = turf.polygonToLine(eezFeature);
      const nearestPoint = turf.nearestPointOnLine(boundaryLine, pt);
      const distKm = turf.distance(pt, nearestPoint, { units: 'kilometers' });
      setDistToCoast(distKm.toFixed(2));
    }
  }
  \<close>
\<close>

definition updateDistanceToEEZ ::
  "('f, 'l, 'm) turf \<Rightarrow> coordinate \<Rightarrow> coordinate \<Rightarrow> 'f app \<Rightarrow> exn + 'f app" where
  "updateDistanceToEEZ turf lon lat s =
     (case map_current s of
        None \<Rightarrow> Inr s
      | Some m \<Rightarrow>
         (case turf_point lon lat of
            Inl e \<Rightarrow> Inl e
          | Inr pt \<Rightarrow>
             (case features_of (eezData s) of
                [] \<Rightarrow> Inr (setDistToCoast None s)
              | eezFeature # _ \<Rightarrow>
                 (case polygonToLine turf eezFeature of
                    Inl e \<Rightarrow> Inl e
                  | Inr boundaryLine \<Rightarrow>
                     (case nearestPointOnLine turf boundaryLine pt of
                        Inl e \<Rightarrow> Inl e
                      | Inr nearestPoint \<Rightarrow>
                         (case distance turf pt nearestPoint ''kilometers'' of
                            Inl e \<Rightarrow> Inl e
                          | Inr distKm \<Rightarrow>
                             Inr (setDistToCoast (Some (toFixed 2 distKm)) s)))))))"

subsection \<open>getRandomDemoLocation\<close>

text \<open>
  \<^verbatim>\<open>
  const oceanRegions = [
    { bbox: [68, 10, 75, 22], insideEEZ: true },
    { bbox: [60, 10, 68, 22], insideEEZ: false },
    { bbox: [82, 10, 88, 22], insideEEZ: true },
    { bbox: [88, 10, 95, 22], insideEEZ: false },
    { bbox: [75, 6, 85, 10], insideEEZ: true },
    { bbox: [75, 2, 85, 6], insideEEZ: false },
    { bbox: [92, 8, 98, 14], insideEEZ: true },
    { bbox: [98, 8, 104, 14], insideEEZ: false },
  ];
  const randomInBBox = (bbox) => {
    const [minX, minY, maxX, maxY] = bbox;
    return {
      lon: minX + Math.random() * (maxX - minX),
      lat: minY + Math.random() * (maxY - minY),
    };
  };
  \<close>
\<close>

record lonlat =
  lon :: real
  lat :: real

record region =
  bbox :: "real \<times> real \<times> real \<times> real"
  insideEEZ :: bool

definition oceanRegions :: "region list" where
  "oceanRegions =
     [\<lparr>bbox = (68, 10, 75, 22), insideEEZ = True\<rparr>,
      \<lparr>bbox = (60, 10, 68, 22), insideEEZ = False\<rparr>,
      \<lparr>bbox = (82, 10, 88, 22), insideEEZ = True\<rparr>,
      \<lparr>bbox = (88, 10, 95, 22), insideEEZ = False\<rparr>,
      \<lparr>bbox = (75, 6, 85, 10), insideEEZ = True\<rparr>,
      \<lparr>bbox = (75, 2, 85, 6), insideEEZ = False\<rparr>,
      \<lparr>bbox = (92, 8, 98, 14), insideEEZ = True\<rparr>,
      \<lparr>bbox = (98, 8, 104, 14), insideEEZ = False\<rparr>]"

text \<open>
  \<^verbatim>\<open>Math.random()\<close> is an input: the two draws, in the order the object literal
  evaluates them.
\<close>

definition randomInBBox :: "real \<times> real \<times> real \<times> real \<Rightarrow> real \<Rightarrow> real \<Rightarrow> lonlat" where
  "randomInBBox b r r' =
     (case b of (minX, minY, maxX, maxY) \<Rightarrow>
        \<lparr>lon = minX + r * (maxX - minX), lat = minY + r' * (maxY - minY)\<rparr>)"

text \<open>
  \<^verbatim>\<open>
  function getRandomDemoLocation() {
    const wantInside = Math.random() < 0.5;
    const suitableRegions = oceanRegions.filter(region =>
      wantInside ? region.insideEEZ : !region.insideEEZ
    );
    if (suitableRegions.length > 0) {
      const selectedRegion = suitableRegions[Math.floor(Math.random() * suitableRegions.length)];
      const p = randomInBBox(selectedRegion.bbox);
      if (eezData?.features?.length) {
        const poly = eezData.features[0];
        const inside = insidePolygon(turf.point([p.lon, p.lat]), poly);
        if (wantInside && inside) {
          return p;
        } else if (!wantInside && !inside) {
          return p;
        }
      } else {
        return p;
      }
    }
    return { lon: 70, lat: 15 };
  }
  \<close>
  The four draws of \<^verbatim>\<open>Math.random()\<close> are the arguments \<open>r0\<close> to \<open>r3\<close>, in call
  order. An index outside the array reads \<^verbatim>\<open>undefined\<close>, whose \<^verbatim>\<open>bbox\<close>
  is a TypeError.
\<close>

definition getRandomDemoLocation ::
  "('f, 'l, 'm) turf \<Rightarrow> 'f app \<Rightarrow> real \<Rightarrow> real \<Rightarrow> real \<Rightarrow> real \<Rightarrow> exn + lonlat" where
  "getRandomDemoLocation turf s r0 r1 r2 r3 =
     (let wantInside = (r0 < 1 / 2);
          suitableRegions =
            filter (\<lambda>region. if wantInside then insideEEZ region else \<not> insideEEZ region)
              oceanRegions
      in if length suitableRegions > 0 then
           (let i = \<lfloor>r1 * real (length suitableRegions)\<rfloor> in
            if 0 \<le> i \<and> i < int (length suitableRegions) then
              (let selectedRegion = suitableRegions ! nat i;
                   p = randomInBBox (bbox selectedRegion) r2 r3
               in case features_of (eezData s) of
                    [] \<Rightarrow> Inr p
                  | poly # _ \<Rightarrow>
                     (case turf_point (Coord (lon p)) (Coord (lat p)) of
                        Inl e \<Rightarrow> Inl e
                      | Inr pt \<Rightarrow>
                         (case insidePolygon turf pt poly of
                            Inl e \<Rightarrow> Inl e
                          | Inr inside \<Rightarrow>
                             if wantInside \<and> inside then Inr p
                             else if \<not> wantInside \<and> \<not> inside then Inr p
                             else Inr \<lparr>lon = 70, lat = 15\<rparr>)))
            else Inl (Thrown ''TypeError''))
         else Inr \<lparr>lon = 70, lat = 15\<rparr>)"

section \<open>A small instance of the library\<close>

text \<open>
  The theorems below hold for every library. To run the model on concrete inputs, this
  instance gives the five functions a meaning on the simplest features: a polygon feature
  is an axis-parallel box \<open>(minX, minY, maxX, maxY)\<close>, its border included, the line of a
  box is its outline, a line feature is a meridian, given by its longitude, and a distance
  is 111 km per degree along the grid. It stands for no property of turf itself.
\<close>

type_synonym box = "real \<times> real \<times> real \<times> real"

definition box_contains :: "point \<Rightarrow> box \<Rightarrow> exn + bool" where
  "box_contains p b =
     (case b of (x0, y0, x1, y1) \<Rightarrow>
        Inr (x0 \<le> plon p \<and> plon p \<le> x1 \<and> y0 \<le> plat p \<and> plat p \<le> y1))"

definition box_outline :: "box \<Rightarrow> exn + box" where
  "box_outline b = Inr b"

definition box_nearest :: "box \<Rightarrow> point \<Rightarrow> exn + point" where
  "box_nearest b p =
     (case b of (x0, y0, x1, y1) \<Rightarrow>
        (let x = plon p; y = plat p;
             cx = max x0 (min x x1); cy = max y0 (min y y1)
         in if cx \<noteq> x \<or> cy \<noteq> y then Inr (Point cx cy)
            else (let w = min (min (x - x0) (x1 - x)) (min (y - y0) (y1 - y))
                  in if w = x - x0 then Inr (Point x0 y)
                     else if w = x1 - x then Inr (Point x1 y)
                     else if w = y - y0 then Inr (Point x y0)
                     else Inr (Point x y1))))"

definition grid_distance :: "point \<Rightarrow> point \<Rightarrow> string \<Rightarrow> exn + number" where
  "grid_distance p q units = Inr (Num (111 * (\<bar>plon p - plon q\<bar> + \<bar>plat p - plat q\<bar>)))"

definition meridian_distance :: "point \<Rightarrow> real \<Rightarrow> string \<Rightarrow> exn + number" where
  "meridian_distance p x units = Inr (Num (111 * \<bar>plon p - x\<bar>))"

definition box_turf :: "(box, box, real) turf" where
  "box_turf =
     \<lparr>booleanPointInPolygon = box_contains,
      polygonToLine = box_outline,
      nearestPointOnLine = box_nearest,
      distance = grid_distance,
      pointToLineDistance = meridian_distance\<rparr>"

text \<open>
  The component as mounted, before and after the boundary file has arrived: the map
  exists with its \<^verbatim>\<open>boat\<close> layer, and the state cells hold their initial values.
\<close>

definition mounted :: "'f featureCollection option \<Rightarrow> 'f app" where
  "mounted data =
     \<lparr>map_current = Some \<lparr>boat_layer = True, boat_circle_color = ''#FFD400''\<rparr>,
      eezData = data,
      safety = \<lparr>label = ''Loading location...'', cls = ''warn''\<rparr>,
      alertMsg = None,
      distToCoast = None,
      calls = []\<rparr>"

text \<open>
  The component between its first render and the map's \<^verbatim>\<open>load\<close> event: the map
  object exists, its \<^verbatim>\<open>boat\<close> source and layer do not yet, and the boundary file
  has not arrived.
\<close>

definition before_load :: "'f app" where
  "before_load =
     \<lparr>map_current = Some \<lparr>boat_layer = False, boat_circle_color = []\<rparr>,
      eezData = None,
      safety = \<lparr>label = ''Loading location...'', cls = ''warn''\<rparr>,
      alertMsg = None,
      distToCoast = None,
      calls = []\<rparr>"

definition square :: "box featureCollection option" where
  "square = Some \<lparr>features = Some [(0, 0, 10, 10)]\<rparr>"

definition wide :: "box featureCollection option" where
  "wide = Some \<lparr>features = Some [(60, 0, 100, 30)]\<rparr>"

section \<open>Helper lemmas\<close>

lemmas app_setters = setSafety_def setAlertMsg_def setPaintProperty_def setDistToCoast_def

lemmas box_library = box_turf_def box_contains_def box_outline_def box_nearest_def
  grid_distance_def meridian_distance_def

lemmas mounted_square = mounted_def square_def features_of_def

subsection \<open>What is left to the library\<close>

text \<open>
  \<^verbatim>\<open>insidePolygon\<close> adds nothing to the library's answer, be it a boolean or an
  exception, and \<^verbatim>\<open>updateDistanceToEEZ\<close> hands the whole first feature to
  \<^verbatim>\<open>polygonToLine\<close>. Which boundaries the library rejects, which rings its line
  holds and how it measures a distance are properties of turf, on which the model is
  silent.
\<close>

lemma insidePolygon_library:
  "insidePolygon turf pt polygonFeature = booleanPointInPolygon turf pt polygonFeature"
  by (simp add: insidePolygon_def)

subsection \<open>The loop of nearestDistanceToLines\<close>

lemma Min_insert_insert:
  fixes a b :: real
  assumes "finite A"
  shows "Min (insert a (insert b A)) = Min (insert (min a b) A)"
proof (cases "A = {}")
  case True
  then show ?thesis by (simp add: min.commute)
next
  case False
  then show ?thesis using assms by (simp add: min.assoc)
qed

lemma nearestDistanceToLines_loop_finite:
  assumes "\<forall>f \<in> set fs. pointToLineDistance turf pt f ''kilometers'' = Inr (Num (d f))"
  shows "nearestDistanceToLines_loop turf pt fs (Num a) = Inr (Num (Min (insert a (d ` set fs))))"
  using assms
proof (induction fs arbitrary: a)
  case Nil
  then show ?case by simp
next
  case (Cons f fs)
  have step: "pointToLineDistance turf pt f ''kilometers'' = Inr (Num (d f))"
    using Cons.prems by simp
  have rest: "\<forall>g \<in> set fs. pointToLineDistance turf pt g ''kilometers'' = Inr (Num (d g))"
    using Cons.prems by simp
  have acc: "(if num_less (Num (d f)) (Num a) then Num (d f) else Num a) = Num (min a (d f))"
    by (simp add: min_def)
  have "nearestDistanceToLines_loop turf pt (f # fs) (Num a) =
        nearestDistanceToLines_loop turf pt fs (Num (min a (d f)))"
    using step acc by simp
  also have "\<dots> = Inr (Num (Min (insert (min a (d f)) (d ` set fs))))"
    by (rule Cons.IH [OF rest])
  also have "Min (insert (min a (d f)) (d ` set fs)) = Min (insert a (insert (d f) (d ` set fs)))"
    by (rule Min_insert_insert [symmetric]) simp
  finally show ?case by simp
qed

subsection \<open>One classification\<close>

lemma updateSafety_step:
  fixes lon lat :: real
  assumes "map_current s \<noteq> None"
    and "features_of (eezData s) = eezFeature # rest"
    and "booleanPointInPolygon turf (Point lon lat) eezFeature = Inr b"
  shows "\<exists>s'. updateSafety turf (Coord lon) (Coord lat) s = Inr s' \<and>
           map_current s' \<noteq> None \<and> eezData s' = eezData s \<and>
           alertMsg s' = (if b then None else Some ''Outside Indian EEZ! Alert Coast Guard'') \<and>
           length (filter raises_alert (calls s')) =
             length (filter raises_alert (calls s)) + (if b then 0 else 1) \<and>
           length (filter clears_alert (calls s')) =
             length (filter clears_alert (calls s)) + (if b then 1 else 0)"
proof -
  obtain m where m: "map_current s = Some m" using assms(1) by auto
  show ?thesis
    using assms(2,3) m
    by (cases b; cases "boat_layer m")
       (simp_all add: updateSafety_def insidePolygon_def app_setters)
qed

subsection \<open>No boundary, numeric coordinates\<close>

text \<open>
  When the boundary data is absent, has no \<^verbatim>\<open>features\<close> or has an empty feature
  list, and the coordinates are numbers, neither \<^verbatim>\<open>updateSafety\<close> nor
  \<^verbatim>\<open>updateDistanceToEEZ\<close> throws, whatever the library does: no geometric call
  is reached. With the map initialised (both functions return at once without it, as their
  only caller \<^verbatim>\<open>updatePosition\<close> does) the safety cell gets the label
  \<^verbatim>\<open>EEZ data not loaded\<close> of class \<^verbatim>\<open>warn\<close> and the distance cell gets
  \<^verbatim>\<open>null\<close>.
\<close>

lemma no_boundary_numeric_point:
  fixes lon lat :: real
  assumes "eezData s = None \<or> eezData s = Some \<lparr>features = None\<rparr> \<or>
           eezData s = Some \<lparr>features = Some []\<rparr>"
  shows "(\<exists>s'. updateSafety turf (Coord lon) (Coord lat) s = Inr s' \<and>
            (map_current s \<noteq> None \<longrightarrow>
               safety s' = \<lparr>label = ''EEZ data not loaded'', cls = ''warn''\<rparr>)) \<and>
         (\<exists>s'. updateDistanceToEEZ turf (Coord lon) (Coord lat) s = Inr s' \<and>
            (map_current s \<noteq> None \<longrightarrow> distToCoast s' = None))"
proof -
  have none: "features_of (eezData s) = []"
    using assms by (auto simp: features_of_def)
  show ?thesis
    by (cases "map_current s")
       (simp_all add: updateSafety_def updateDistanceToEEZ_def none app_setters)
qed

text \<open>
  A coordinate that is no number stops \<^verbatim>\<open>updateDistanceToEEZ\<close> in every state
  with a map, and \<^verbatim>\<open>updateSafety\<close> only once a boundary is loaded.
\<close>

lemma updateDistanceToEEZ_rejected_point:
  fixes lon lat :: coordinate
  assumes "map_current s \<noteq> None" and "turf_point lon lat = Inl e"
  shows "updateDistanceToEEZ turf lon lat s = Inl e"
  using assms by (auto simp: updateDistanceToEEZ_def)

subsection \<open>The demo sampler\<close>

text \<open>
  The catalogue has four regions of each kind, so \<^verbatim>\<open>suitableRegions\<close> is never
  empty, and the index \<^verbatim>\<open>Math.floor(Math.random() * 4)\<close> stays inside it for a
  draw in \<open>[0, 1)\<close>. With such a draw the function reduces to: one candidate, returned as
  it is when no boundary is loaded, and otherwise returned when the library's answer equals
  \<^verbatim>\<open>wantInside\<close> and replaced by the fixed coordinate when it does not.
\<close>

lemma suitableRegions_inside:
  "filter insideEEZ oceanRegions =
     [\<lparr>bbox = (68, 10, 75, 22), insideEEZ = True\<rparr>,
      \<lparr>bbox = (82, 10, 88, 22), insideEEZ = True\<rparr>,
      \<lparr>bbox = (75, 6, 85, 10), insideEEZ = True\<rparr>,
      \<lparr>bbox = (92, 8, 98, 14), insideEEZ = True\<rparr>]"
  by (simp add: oceanRegions_def)

lemma suitableRegions_outside:
  "filter (\<lambda>region. \<not> insideEEZ region) oceanRegions =
     [\<lparr>bbox = (60, 10, 68, 22), insideEEZ = False\<rparr>,
      \<lparr>bbox = (88, 10, 95, 22), insideEEZ = False\<rparr>,
      \<lparr>bbox = (75, 2, 85, 6), insideEEZ = False\<rparr>,
      \<lparr>bbox = (98, 8, 104, 14), insideEEZ = False\<rparr>]"
  by (simp add: oceanRegions_def)

lemma suitableRegions_length:
  "length (filter (\<lambda>region. if w then insideEEZ region else \<not> insideEEZ region) oceanRegions) = 4"
  by (cases w) (simp_all add: oceanRegions_def)

lemma suitableRegions_member:
  assumes "region \<in> set (filter (\<lambda>region. if w then insideEEZ region else \<not> insideEEZ region)
                            oceanRegions)"
  shows "region \<in> set oceanRegions \<and> insideEEZ region = w"
  using assms by (cases w) auto

lemma oceanRegions_ordered:
  assumes "region \<in> set oceanRegions"
  shows "case bbox region of (minX, minY, maxX, maxY) \<Rightarrow> minX \<le> maxX \<and> minY \<le> maxY"
  using assms by (auto simp: oceanRegions_def)

lemma randomInBBox_within:
  assumes "minX \<le> maxX" and "minY \<le> maxY"
    and "0 \<le> r" and "r \<le> 1" and "0 \<le> r'" and "r' \<le> 1"
  shows "minX \<le> lon (randomInBBox (minX, minY, maxX, maxY) r r') \<and>
         lon (randomInBBox (minX, minY, maxX, maxY) r r') \<le> maxX \<and>
         minY \<le> lat (randomInBBox (minX, minY, maxX, maxY) r r') \<and>
         lat (randomInBBox (minX, minY, maxX, maxY) r r') \<le> maxY"
proof -
  have x0: "0 \<le> r * (maxX - minX)" using assms by simp
  have x1: "r * (maxX - minX) \<le> 1 * (maxX - minX)"
    using assms by (intro mult_right_mono) simp_all
  have y0: "0 \<le> r' * (maxY - minY)" using assms by simp
  have y1: "r' * (maxY - minY) \<le> 1 * (maxY - minY)"
    using assms by (intro mult_right_mono) simp_all
  show ?thesis using x0 x1 y0 y1 by (simp add: randomInBBox_def)
qed

lemma index_in_range:
  fixes r :: real
  assumes "0 \<le> r" and "r < 1"
  shows "nat \<lfloor>r * 4\<rfloor> < 4"
proof -
  have "0 \<le> r * 4" and "r * 4 < 4" using assms by simp_all
  then have "0 \<le> \<lfloor>r * 4\<rfloor>" and "\<lfloor>r * 4\<rfloor> < 4" by (simp_all add: floor_less_iff)
  then show ?thesis by linarith
qed

lemma getRandomDemoLocation_unfold:
  assumes "0 \<le> r1" and "r1 < 1"
  shows "getRandomDemoLocation turf s r0 r1 r2 r3 =
     (let p = randomInBBox
                (bbox (filter (\<lambda>region. if r0 < 1 / 2 then insideEEZ region
                                         else \<not> insideEEZ region) oceanRegions
                       ! nat \<lfloor>r1 * 4\<rfloor>)) r2 r3
      in case features_of (eezData s) of
           [] \<Rightarrow> Inr p
         | poly # _ \<Rightarrow>
            (case booleanPointInPolygon turf (Point (lon p) (lat p)) poly of
               Inl e \<Rightarrow> Inl e
             | Inr inside \<Rightarrow>
                if inside = (r0 < 1 / 2) then Inr p else Inr \<lparr>lon = 70, lat = 15\<rparr>))"
proof (cases "r0 < 1 / 2")
  case True
  then show ?thesis
    using assms
    by (auto simp: getRandomDemoLocation_def suitableRegions_inside insidePolygon_def Let_def
             split: list.splits sum.splits)
next
  case False
  then show ?thesis
    using assms
    by (auto simp: getRandomDemoLocation_def suitableRegions_outside insidePolygon_def Let_def
             split: list.splits sum.splits)
qed

lemma getRandomDemoLocation_bad_index:
  assumes "\<not> (0 \<le> r1 \<and> r1 < 1)"
  shows "getRandomDemoLocation turf s r0 r1 r2 r3 = Inl (Thrown ''TypeError'')"
  using assms
  by (cases "r0 < 1 / 2")
     (auto simp: getRandomDemoLocation_def suitableRegions_inside suitableRegions_outside Let_def)

subsection \<open>toFixed\<close>

lemma fixed_digits_same_hundredth:
  assumes "\<lfloor>d' * 100 + 1 / 2\<rfloor> = \<lfloor>d * 100 + 1 / 2\<rfloor>"
  shows "fixed_digits 2 d' = fixed_digits 2 d"
  using assms by (simp add: fixed_digits_def)

lemma toFixed_small:
  assumes "0 \<le> d" and "d < 10 ^ 21"
  shows "toFixed 2 (Num d) = Str (fixed_digits 2 d)"
proof -
  have "\<bar>d\<bar> = d" using assms(1) by simp
  then have "\<not> 10 ^ 21 \<le> \<bar>d\<bar>" using assms(2) by linarith
  moreover have "\<not> d < 0" using assms(1) by simp
  ultimately show ?thesis unfolding toFixed_def by (simp only: number.case if_False)
qed

lemma decimal_55500: "decimal 55500 = ''55500''"
  by (simp add: decimal.simps digit_char_def)

lemma decimal_123: "decimal 123 = ''123''"
  by (simp add: decimal.simps digit_char_def)

lemma fixed_digits_555: "fixed_digits 2 555 = ''555.00''"
  by (simp add: fixed_digits_def Let_def decimal_55500)

lemma fixed_digits_near:
  "fixed_digits 2 (12321 / 10000) = ''1.23''"
  "fixed_digits 2 (123321 / 100000) = ''1.23''"
  by (simp_all add: fixed_digits_def Let_def decimal_123)

section \<open>The claims\<close>

text \<open>
  \<^bold>\<open>C1\<close> (corrected). With the map initialised and a boundary set that has at least
  one feature, \<^verbatim>\<open>updateSafety\<close> asks the library whether the point lies in the
  first feature and sets the safety cell from the answer: label
  \<^verbatim>\<open>Inside Indian EEZ (Safe)\<close> of class \<^verbatim>\<open>safe\<close> when it is true, label
  \<^verbatim>\<open>Outside Indian EEZ! Alert Coast Guard\<close> of class \<^verbatim>\<open>danger\<close> when it is
  false. The labels are the code's, not the two the claim quotes.
\<close>

theorem updateSafety_labels:
  fixes lon lat :: real
  assumes "map_current s = Some m"
    and "features_of (eezData s) = eezFeature # rest"
  shows "(booleanPointInPolygon turf (Point lon lat) eezFeature = Inr True \<longrightarrow>
            map_sum id safety (updateSafety turf (Coord lon) (Coord lat) s) =
              Inr \<lparr>label = ''Inside Indian EEZ (Safe)'', cls = ''safe''\<rparr>) \<and>
         (booleanPointInPolygon turf (Point lon lat) eezFeature = Inr False \<longrightarrow>
            map_sum id safety (updateSafety turf (Coord lon) (Coord lat) s) =
              Inr \<lparr>label = ''Outside Indian EEZ! Alert Coast Guard'', cls = ''danger''\<rparr>)"
  using assms by (simp add: updateSafety_def insidePolygon_def app_setters)

theorem updateSafety_labels_witness:
  "map_sum id safety (updateSafety box_turf (Coord 5) (Coord 5) (mounted square)) =
     Inr \<lparr>label = ''Inside Indian EEZ (Safe)'', cls = ''safe''\<rparr> \<and>
   map_sum id safety (updateSafety box_turf (Coord 15) (Coord 5) (mounted square)) =
     Inr \<lparr>label = ''Outside Indian EEZ! Alert Coast Guard'', cls = ''danger''\<rparr>"
  using updateSafety_labels [of "mounted square"
          "\<lparr>boat_layer = True, boat_circle_color = ''#FFD400''\<rparr>" "(0, 0, 10, 10)" "[]"
          box_turf 5 5]
        updateSafety_labels [of "mounted square"
          "\<lparr>boat_layer = True, boat_circle_color = ''#FFD400''\<rparr>" "(0, 0, 10, 10)" "[]"
          box_turf 15 5]
  by (simp add: mounted_square box_library)

text \<open>
  The labels of the claim as stated are not the ones the code sets: at a point inside the
  square the label differs from \<^verbatim>\<open>Inside EEZ (Safe)\<close>, and at a point outside
  it differs from the claim's Outside label (whose dash is the three bytes of its UTF-8
  encoding).
\<close>

theorem updateSafety_spec_labels_differ:
  "map_sum id (label \<circ> safety) (updateSafety box_turf (Coord 5) (Coord 5) (mounted square)) \<noteq>
     Inr ''Inside EEZ (Safe)'' \<and>
   map_sum id (label \<circ> safety) (updateSafety box_turf (Coord 15) (Coord 5) (mounted square)) \<noteq>
     Inr (''Outside EEZ '' @ [CHR 0xE2, CHR 0x80, CHR 0x94] @ '' Alert'')"
  by (simp add: updateSafety_def insidePolygon_def app_setters mounted_square box_library)

text \<open>
  \<^bold>\<open>C2\<close> (corrected). The alert is level-triggered, not edge-triggered. Across any
  sequence of classifications against a loaded boundary, \<^verbatim>\<open>setAlertMsg(label)\<close> runs
  once for every point classified outside and \<^verbatim>\<open>setAlertMsg(null)\<close> once for
  every point classified inside, whatever the classification before was. The same value
  is written again on a repeat, so the alert message after the sequence depends on the
  last point only: it is cleared when that point is inside and set when it is outside.
\<close>

theorem alert_set_on_every_outside:
  assumes "map_current s \<noteq> None"
    and "features_of (eezData s) = eezFeature # rest"
    and "\<forall>p \<in> set pts. booleanPointInPolygon turf (Point (fst p) (snd p)) eezFeature = Inr (inside p)"
  shows "\<exists>s'. updateSafety_all turf pts s = Inr s' \<and>
           length (filter raises_alert (calls s')) =
             length (filter raises_alert (calls s)) + length (filter (\<lambda>p. \<not> inside p) pts) \<and>
           length (filter clears_alert (calls s')) =
             length (filter clears_alert (calls s)) + length (filter inside pts) \<and>
           (pts \<noteq> [] \<longrightarrow>
              alertMsg s' = (if inside (last pts) then None
                             else Some ''Outside Indian EEZ! Alert Coast Guard''))"
  using assms
proof (induction pts arbitrary: s)
  case Nil
  then show ?case by simp
next
  case (Cons p ps)
  have here: "booleanPointInPolygon turf (Point (fst p) (snd p)) eezFeature = Inr (inside p)"
    using Cons.prems(3) by simp
  obtain s1 where s1: "updateSafety turf (Coord (fst p)) (Coord (snd p)) s = Inr s1"
      and map1: "map_current s1 \<noteq> None" and data1: "eezData s1 = eezData s"
      and alert1: "alertMsg s1 = (if inside p then None
                                  else Some ''Outside Indian EEZ! Alert Coast Guard'')"
      and raise1: "length (filter raises_alert (calls s1)) =
                     length (filter raises_alert (calls s)) + (if inside p then 0 else 1)"
      and clear1: "length (filter clears_alert (calls s1)) =
                     length (filter clears_alert (calls s)) + (if inside p then 1 else 0)"
    using updateSafety_step [OF Cons.prems(1) Cons.prems(2) here] by blast
  have feats1: "features_of (eezData s1) = eezFeature # rest"
    using data1 Cons.prems(2) by simp
  have later: "\<forall>q \<in> set ps.
                 booleanPointInPolygon turf (Point (fst q) (snd q)) eezFeature = Inr (inside q)"
    using Cons.prems(3) by simp
  obtain s' where s': "updateSafety_all turf ps s1 = Inr s'"
      and raise': "length (filter raises_alert (calls s')) =
                     length (filter raises_alert (calls s1)) +
                     length (filter (\<lambda>p. \<not> inside p) ps)"
      and clear': "length (filter clears_alert (calls s')) =
                     length (filter clears_alert (calls s1)) + length (filter inside ps)"
      and alert': "ps \<noteq> [] \<longrightarrow>
                     alertMsg s' = (if inside (last ps) then None
                                    else Some ''Outside Indian EEZ! Alert Coast Guard'')"
    using Cons.IH [OF map1 feats1 later] by blast
  have run: "updateSafety_all turf (p # ps) s = Inr s'"
    using s1 s' by simp
  have last_alert: "alertMsg s' = (if inside (last (p # ps)) then None
                                   else Some ''Outside Indian EEZ! Alert Coast Guard'')"
  proof (cases "ps = []")
    case True
    then have "s' = s1" using s' by simp
    then show ?thesis using alert1 True by simp
  next
    case False
    then show ?thesis using alert' by simp
  qed
  show ?case
    using run raise1 raise' clear1 clear' last_alert by auto
qed

theorem alert_set_on_every_outside_witness:
  "map_sum id (length \<circ> filter raises_alert \<circ> calls)
     (updateSafety_all box_turf [(5, 5), (15, 5), (15, 5), (5, 5)] (mounted square)) = Inr 2 \<and>
   map_sum id (length \<circ> filter clears_alert \<circ> calls)
     (updateSafety_all box_turf [(5, 5), (15, 5), (15, 5), (5, 5)] (mounted square)) = Inr 2 \<and>
   map_sum id alertMsg
     (updateSafety_all box_turf [(5, 5), (15, 5), (15, 5), (5, 5)] (mounted square)) = Inr None"
  using alert_set_on_every_outside [of "mounted square" "(0, 0, 10, 10)" "[]"
          "[(5, 5), (15, 5), (15, 5), (5, 5)]" box_turf
          "\<lambda>p. 0 \<le> fst p \<and> fst p \<le> 10 \<and> 0 \<le> snd p \<and> snd p \<le> 10"]
  by (auto simp: mounted_square box_library)

text \<open>
  The claim as stated fails: from the freshly mounted component, two classifications of
  the same outside point make one edge, Unknown to Outside, and yet the second call
  repeats every effect of the first, the alert among them.
\<close>

theorem repeated_outside_sets_alert_again:
  "map_sum id calls (updateSafety_all box_turf [(15, 5), (15, 5)] (mounted square)) =
     Inr [SetPaintProperty ''boat'' ''circle-color'' ''#FF0000'',
          SetAlertMsg (Some ''Outside Indian EEZ! Alert Coast Guard''),
          SetSafety \<lparr>label = ''Outside Indian EEZ! Alert Coast Guard'', cls = ''danger''\<rparr>,
          SetPaintProperty ''boat'' ''circle-color'' ''#FF0000'',
          SetAlertMsg (Some ''Outside Indian EEZ! Alert Coast Guard''),
          SetSafety \<lparr>label = ''Outside Indian EEZ! Alert Coast Guard'', cls = ''danger''\<rparr>]"
  by (simp add: updateSafety_def insidePolygon_def app_setters mounted_square box_library)

text \<open>
  \<^bold>\<open>C3\<close> (defect of the code). With no boundary loaded, \<^verbatim>\<open>updateSafety\<close> tests
  for the missing boundary first and builds the point after, so it reports the Unknown
  state for any coordinates. \<^verbatim>\<open>updateDistanceToEEZ\<close> builds the point first and
  tests after: when the longitude is still \<^verbatim>\<open>null\<close>, the value the position cell
  starts with and the latitude field passes on, \<^verbatim>\<open>turf.point\<close> throws before the
  test is reached, and no \<^verbatim>\<open>null\<close> distance is set. This holds for every library;
  the state is the one before the map has loaded. At numeric coordinates both functions do
  what the claim says (\<open>no_boundary_numeric_point\<close>).
\<close>

theorem distance_throws_before_boundary_test:
  "updateDistanceToEEZ turf Null (Coord 12) before_load =
     Inl (Thrown ''coordinates must contain numbers'') \<and>
   map_sum id safety (updateSafety turf Null (Coord 12) before_load) =
     Inr \<lparr>label = ''EEZ data not loaded'', cls = ''warn''\<rparr>"
  by (simp add: updateDistanceToEEZ_def updateSafety_def before_load_def features_of_def
        setSafety_def)

text \<open>
  \<^bold>\<open>C5\<close>. With a boundary set that has at least one feature, a point the sampler
  returns either is one for which the library's containment test on the first feature
  gives exactly \<^verbatim>\<open>wantInside\<close> (the draw \<open>r0 < 1/2\<close>), or is the fixed coordinate
  \<open>(70, 15)\<close>, returned when the candidate drawn in a region of the wanted kind failed
  that test.
\<close>

theorem demo_location_verified:
  assumes "features_of (eezData s) = poly # rest"
    and "getRandomDemoLocation turf s r0 r1 r2 r3 = Inr p"
  shows "booleanPointInPolygon turf (Point (lon p) (lat p)) poly = Inr (r0 < 1 / 2) \<or>
         (p = \<lparr>lon = 70, lat = 15\<rparr> \<and>
          (\<exists>region \<in> set oceanRegions.
             insideEEZ region = (r0 < 1 / 2) \<and>
             booleanPointInPolygon turf
               (Point (lon (randomInBBox (bbox region) r2 r3))
                      (lat (randomInBBox (bbox region) r2 r3))) poly = Inr (\<not> r0 < 1 / 2)))"
proof -
  let ?suitable = "filter (\<lambda>region. if r0 < 1 / 2 then insideEEZ region
                                     else \<not> insideEEZ region) oceanRegions"
  let ?region = "?suitable ! nat \<lfloor>r1 * 4\<rfloor>"
  let ?c = "randomInBBox (bbox ?region) r2 r3"
  have range: "0 \<le> r1" "r1 < 1"
    using assms(2) getRandomDemoLocation_bad_index [of r1 turf s r0 r2 r3] by auto
  have "nat \<lfloor>r1 * 4\<rfloor> < length ?suitable"
    using index_in_range [OF range] by (simp only: suitableRegions_length)
  then have "?region \<in> set ?suitable" by (rule nth_mem)
  then have member: "?region \<in> set oceanRegions" and tag: "insideEEZ ?region = (r0 < 1 / 2)"
    using suitableRegions_member by blast+
  have run: "(case booleanPointInPolygon turf (Point (lon ?c) (lat ?c)) poly of
                Inl e \<Rightarrow> Inl e
              | Inr inside \<Rightarrow>
                 if inside = (r0 < 1 / 2) then Inr ?c else Inr \<lparr>lon = 70, lat = 15\<rparr>) = Inr p"
    using assms(2)
    by (simp only: getRandomDemoLocation_unfold [OF range] Let_def assms(1) list.case)
  then obtain inside where
    lib: "booleanPointInPolygon turf (Point (lon ?c) (lat ?c)) poly = Inr inside"
    by (cases "booleanPointInPolygon turf (Point (lon ?c) (lat ?c)) poly") auto
  show ?thesis
  proof (cases "inside = (r0 < 1 / 2)")
    case True
    then have "p = ?c" using run lib by simp
    then show ?thesis using lib True by simp
  next
    case False
    then have "p = \<lparr>lon = 70, lat = 15\<rparr>" using run lib by simp
    moreover have "booleanPointInPolygon turf (Point (lon ?c) (lat ?c)) poly =
                     Inr (\<not> r0 < 1 / 2)"
      using lib False by auto
    ultimately show ?thesis using member tag by blast
  qed
qed

theorem demo_location_verified_witness:
  "getRandomDemoLocation box_turf (mounted wide) (1 / 4) (3 / 10) (1 / 2) (1 / 2) =
     Inr \<lparr>lon = 85, lat = 16\<rparr> \<and>
   booleanPointInPolygon box_turf (Point 85 16) (60, 0, 100, 30) = Inr True"
  using demo_location_verified [of "mounted wide" "(60, 0, 100, 30)" "[]" box_turf
          "1 / 4" "3 / 10" "1 / 2" "1 / 2" "\<lparr>lon = 85, lat = 16\<rparr>"]
  by (simp add: getRandomDemoLocation_unfold suitableRegions_inside randomInBBox_def
        mounted_def wide_def features_of_def box_library)

text \<open>
  \<^bold>\<open>C6\<close>. The sampler has no loop: it draws one candidate and tests it at most once,
  an attempt cap of one. For every draw of \<^verbatim>\<open>Math.random()\<close> in \<open>[0, 1)\<close>, and a
  library whose containment test answers on the first feature, it returns a point: the
  candidate when no boundary is loaded or the test agrees with \<^verbatim>\<open>wantInside\<close>, and
  the fixed coordinate \<open>(70, 15)\<close>, not an error, when the test disagrees.
\<close>

theorem demo_location_always_returns:
  assumes "0 \<le> r1" and "r1 < 1"
    and "\<And>poly rest q. features_of (eezData s) = poly # rest \<Longrightarrow>
           \<exists>b. booleanPointInPolygon turf q poly = Inr b"
  shows "\<exists>c. case features_of (eezData s) of
               [] \<Rightarrow> getRandomDemoLocation turf s r0 r1 r2 r3 = Inr c
             | poly # _ \<Rightarrow>
                booleanPointInPolygon turf (Point (lon c) (lat c)) poly = Inr (r0 < 1 / 2) \<and>
                getRandomDemoLocation turf s r0 r1 r2 r3 = Inr c
                \<or>
                booleanPointInPolygon turf (Point (lon c) (lat c)) poly = Inr (\<not> r0 < 1 / 2) \<and>
                getRandomDemoLocation turf s r0 r1 r2 r3 = Inr \<lparr>lon = 70, lat = 15\<rparr>"
proof -
  let ?c = "randomInBBox
              (bbox (filter (\<lambda>region. if r0 < 1 / 2 then insideEEZ region
                                       else \<not> insideEEZ region) oceanRegions
                     ! nat \<lfloor>r1 * 4\<rfloor>)) r2 r3"
  show ?thesis
  proof (cases "features_of (eezData s)")
    case Nil
    then show ?thesis
      by (simp add: getRandomDemoLocation_unfold [OF assms(1,2)])
  next
    case (Cons poly rest)
    obtain b where b: "booleanPointInPolygon turf (Point (lon ?c) (lat ?c)) poly = Inr b"
      using assms(3) [OF Cons] by blast
    have "booleanPointInPolygon turf (Point (lon ?c) (lat ?c)) poly = Inr (r0 < 1 / 2) \<and>
          getRandomDemoLocation turf s r0 r1 r2 r3 = Inr ?c
          \<or>
          booleanPointInPolygon turf (Point (lon ?c) (lat ?c)) poly = Inr (\<not> r0 < 1 / 2) \<and>
          getRandomDemoLocation turf s r0 r1 r2 r3 = Inr \<lparr>lon = 70, lat = 15\<rparr>"
      using b Cons by (cases "b = (r0 < 1 / 2)")
        (auto simp: getRandomDemoLocation_unfold [OF assms(1,2)] Let_def)
    then show ?thesis using Cons by (intro exI [of _ ?c]) simp
  qed
qed

theorem demo_location_always_returns_witness:
  "getRandomDemoLocation box_turf (mounted square) (1 / 4) (3 / 10) (1 / 2) (1 / 2) =
     Inr \<lparr>lon = 70, lat = 15\<rparr> \<and>
   booleanPointInPolygon box_turf (Point 85 16) (0, 0, 10, 10) = Inr False"
  using demo_location_always_returns [of "3 / 10" "mounted square" box_turf "1 / 4" "1 / 2" "1 / 2"]
  by (simp add: getRandomDemoLocation_unfold suitableRegions_inside randomInBBox_def
        mounted_square box_library)

text \<open>
  \<^bold>\<open>C8\<close> (corrected). \<^verbatim>\<open>updateDistanceToEEZ\<close> takes the library's distance
  unchanged and stores \<^verbatim>\<open>distKm.toFixed(2)\<close>: the value it delivers is the
  two-decimal string, and the full precision does not leave the function. For a distance
  \<open>d\<close> with \<open>0 \<le> d < 10^21\<close> the stored string is fixed by the integer
  \<open>\<lfloor>100 d + 1/2\<rfloor>\<close>, so two distances with the same nearest hundredth are stored
  as the same string.
\<close>

theorem distance_stored_rounded:
  fixes lon lat :: real
  assumes "map_current s = Some m"
    and "features_of (eezData s) = eezFeature # rest"
    and "polygonToLine turf eezFeature = Inr boundaryLine"
    and "nearestPointOnLine turf boundaryLine (Point lon lat) = Inr nearestPoint"
    and "distance turf (Point lon lat) nearestPoint ''kilometers'' = Inr (Num d)"
    and "0 \<le> d" and "d < 10 ^ 21"
  shows "map_sum id distToCoast (updateDistanceToEEZ turf (Coord lon) (Coord lat) s) =
           Inr (Some (Str (fixed_digits 2 d))) \<and>
         (\<forall>d'. \<lfloor>d' * 100 + 1 / 2\<rfloor> = \<lfloor>d * 100 + 1 / 2\<rfloor> \<longrightarrow>
               fixed_digits 2 d' = fixed_digits 2 d)"
proof -
  have "updateDistanceToEEZ turf (Coord lon) (Coord lat) s = Inr (setDistToCoast (Some (toFixed 2 (Num d))) s)"
    using assms(1-5) by (simp add: updateDistanceToEEZ_def)
  then have "map_sum id distToCoast (updateDistanceToEEZ turf (Coord lon) (Coord lat) s) =
               Inr (Some (Str (fixed_digits 2 d)))"
    by (simp add: toFixed_small [OF assms(6,7)] setDistToCoast_def)
  then show ?thesis
    using fixed_digits_same_hundredth by blast
qed

theorem distance_stored_rounded_witness:
  "map_sum id distToCoast (updateDistanceToEEZ box_turf (Coord 15) (Coord 5) (mounted square)) =
     Inr (Some (Str ''555.00'')) \<and> fixed_digits 2 555 = ''555.00''"
  using distance_stored_rounded [of "mounted square"
          "\<lparr>boat_layer = True, boat_circle_color = ''#FFD400''\<rparr>" "(0, 0, 10, 10)" "[]"
          box_turf "(0, 0, 10, 10)" 15 5 "Point 10 5" 555]
  by (simp add: mounted_square box_library fixed_digits_555)

text \<open>
  The claim as stated fails: two points whose distances, \<open>1.2321\<close> km and \<open>1.23321\<close> km,
  differ by less than \<open>0.005\<close> km are both delivered as \<^verbatim>\<open>1.23\<close>, which is
  neither distance.
\<close>

theorem nearby_distances_stored_equal:
  "distance box_turf (Point (100111 / 10000) 5) (Point 10 5) ''kilometers'' =
     Inr (Num (12321 / 10000)) \<and>
   distance box_turf (Point (1001111 / 100000) 5) (Point 10 5) ''kilometers'' =
     Inr (Num (123321 / 100000)) \<and>
   map_sum id distToCoast (updateDistanceToEEZ box_turf (Coord (100111 / 10000)) (Coord 5) (mounted square)) =
     Inr (Some (Str ''1.23'')) \<and>
   map_sum id distToCoast (updateDistanceToEEZ box_turf (Coord (1001111 / 100000)) (Coord 5) (mounted square)) =
     Inr (Some (Str ''1.23''))"
  by (simp add: updateDistanceToEEZ_def toFixed_def app_setters mounted_square box_library
        fixed_digits_near)

text \<open>
  \<^bold>\<open>C9\<close>. With no boundary loaded, the sampler returns its candidate without consulting
  the library: for draws in \<open>[0, 1)\<close> the result is \<^verbatim>\<open>randomInBBox\<close> of a catalogue
  region whose tag equals \<^verbatim>\<open>wantInside\<close>, and it lies within that region's box,
  bounds included.
\<close>

theorem demo_location_without_boundary:
  assumes "features_of (eezData s) = []"
    and "0 \<le> r1" and "r1 < 1" and "0 \<le> r2" and "r2 < 1" and "0 \<le> r3" and "r3 < 1"
  shows "\<exists>region \<in> set oceanRegions.
           insideEEZ region = (r0 < 1 / 2) \<and>
           getRandomDemoLocation turf s r0 r1 r2 r3 = Inr (randomInBBox (bbox region) r2 r3) \<and>
           (case bbox region of (minLon, minLat, maxLon, maxLat) \<Rightarrow>
              minLon \<le> lon (randomInBBox (bbox region) r2 r3) \<and>
              lon (randomInBBox (bbox region) r2 r3) \<le> maxLon \<and>
              minLat \<le> lat (randomInBBox (bbox region) r2 r3) \<and>
              lat (randomInBBox (bbox region) r2 r3) \<le> maxLat)"
proof -
  let ?suitable = "filter (\<lambda>region. if r0 < 1 / 2 then insideEEZ region
                                     else \<not> insideEEZ region) oceanRegions"
  let ?region = "?suitable ! nat \<lfloor>r1 * 4\<rfloor>"
  have "nat \<lfloor>r1 * 4\<rfloor> < length ?suitable"
    using index_in_range [OF assms(2,3)] by (simp only: suitableRegions_length)
  then have "?region \<in> set ?suitable" by (rule nth_mem)
  then have member: "?region \<in> set oceanRegions" and tag: "insideEEZ ?region = (r0 < 1 / 2)"
    using suitableRegions_member by blast+
  have result: "getRandomDemoLocation turf s r0 r1 r2 r3 = Inr (randomInBBox (bbox ?region) r2 r3)"
    using assms(1) by (simp add: getRandomDemoLocation_unfold [OF assms(2,3)])
  obtain minX minY maxX maxY where box: "bbox ?region = (minX, minY, maxX, maxY)"
    by (cases "bbox ?region") auto
  have "minX \<le> maxX \<and> minY \<le> maxY"
    using oceanRegions_ordered [OF member] box by simp
  then have within: "minX \<le> lon (randomInBBox (bbox ?region) r2 r3) \<and>
         lon (randomInBBox (bbox ?region) r2 r3) \<le> maxX \<and>
         minY \<le> lat (randomInBBox (bbox ?region) r2 r3) \<and>
         lat (randomInBBox (bbox ?region) r2 r3) \<le> maxY"
    using randomInBBox_within [of minX maxX minY maxY r2 r3] assms(4-7) box by simp
  show ?thesis
    using member tag result within box by (intro bexI [of _ ?region]) simp_all
qed

theorem demo_location_without_boundary_witness:
  "getRandomDemoLocation box_turf (mounted None) (1 / 4) (3 / 10) (1 / 2) (1 / 2) =
     Inr \<lparr>lon = 85, lat = 16\<rparr> \<and>
   \<lparr>bbox = (82, 10, 88, 22), insideEEZ = True\<rparr> \<in> set oceanRegions"
  using demo_location_without_boundary
          [of "mounted None" "3 / 10" "1 / 2" "1 / 2" "1 / 4" box_turf]
  by (simp add: getRandomDemoLocation_unfold suitableRegions_inside randomInBBox_def
        mounted_def features_of_def oceanRegions_def)

text \<open>
  \<^bold>\<open>C10\<close>. \<^verbatim>\<open>nearestDistanceToLines\<close> returns \<^verbatim>\<open>Infinity\<close> for an empty
  list, without calling the library and so without throwing. For a non-empty list on
  which the library's point-to-line distances are finite and not negative, it returns
  their minimum, which is not negative either.
\<close>

theorem nearestDistanceToLines_minimum:
  assumes "\<forall>f \<in> set lineFeatures.
             pointToLineDistance turf pt f ''kilometers'' = Inr (Num (d f)) \<and> 0 \<le> d f"
  shows "nearestDistanceToLines turf pt [] = Inr PosInfinity \<and>
         (lineFeatures \<noteq> [] \<longrightarrow>
            nearestDistanceToLines turf pt lineFeatures = Inr (Num (Min (d ` set lineFeatures))) \<and>
            0 \<le> Min (d ` set lineFeatures))"
proof (intro conjI impI)
  show "nearestDistanceToLines turf pt [] = Inr PosInfinity"
    by (simp add: nearestDistanceToLines_def)
next
  assume ne: "lineFeatures \<noteq> []"
  then obtain f fs where split: "lineFeatures = f # fs" by (cases lineFeatures) auto
  have first: "pointToLineDistance turf pt f ''kilometers'' = Inr (Num (d f))"
    using assms split by simp
  have rest: "\<forall>g \<in> set fs. pointToLineDistance turf pt g ''kilometers'' = Inr (Num (d g))"
    using assms split by simp
  have "nearestDistanceToLines turf pt lineFeatures =
        nearestDistanceToLines_loop turf pt fs (Num (d f))"
    using first by (simp add: nearestDistanceToLines_def split)
  also have "\<dots> = Inr (Num (Min (insert (d f) (d ` set fs))))"
    by (rule nearestDistanceToLines_loop_finite [OF rest])
  finally show "nearestDistanceToLines turf pt lineFeatures = Inr (Num (Min (d ` set lineFeatures)))"
    by (simp add: split)
next
  assume ne: "lineFeatures \<noteq> []"
  have "\<forall>x \<in> d ` set lineFeatures. 0 \<le> x" using assms by auto
  then show "0 \<le> Min (d ` set lineFeatures)" using ne by simp
qed

theorem nearestDistanceToLines_minimum_witness:
  "nearestDistanceToLines box_turf (Point 3 4) ([] :: real list) = Inr PosInfinity \<and>
   nearestDistanceToLines box_turf (Point 3 4) [1, 5, 5 / 2] = Inr (Num (111 / 2))"
  using nearestDistanceToLines_minimum
          [of "[1, 5, 5 / 2]" box_turf "Point 3 4" "\<lambda>x. 111 * \<bar>3 - x\<bar>"]
  by (simp add: box_turf_def meridian_distance_def)

end
